theory Spec2Isabelle
  imports Complex_Main "HOL-Library.Word"
begin

section \<open>JavaScript strings\<close>

text \<open>
  A JavaScript string is a sequence of UTF-16 code units. Document contents, filenames,
  messages and the rendered reports are all values of this type. ASCII literals of the
  source are written with \<open>lit\<close>; the emoji of the source are spelled out as code units.
\<close>

type_synonym jschar = "16 word"
type_synonym jsstring = "jschar list"

definition lit :: "string \<Rightarrow> jsstring" where
  "lit s = map of_char s"

text \<open>
  Template literals print a count with \<open>Number.prototype.toString\<close>: the decimal digits
  of the number. Every count of the checker is an array length or a sum of array lengths,
  far below the range where JavaScript switches to exponent notation.
\<close>

fun digits :: "nat \<Rightarrow> nat \<Rightarrow> jsstring" where
  "digits 0 n = []"
| "digits (Suc fuel) n =
     (if n < 10 then [of_nat (48 + n)]
      else digits fuel (n div 10) @ [of_nat (48 + n mod 10)])"

definition showNumber :: "nat \<Rightarrow> jsstring" where
  "showNumber n = digits (Suc n) n"

section \<open>Data model (rules.ts, checker.ts)\<close>

datatype severity = Error | Warning | Info

datatype category = Maintenance | PilotLog | Airworthiness | WeightBalance

datatype status = PASS | FAIL | WARNING

record ComplianceViolation =
  ruleId :: jsstring
  line :: "nat option"
  message :: jsstring
  severity :: severity
  regulation :: jsstring
  suggestion :: "jsstring option"

record FileComplianceResult =
  filename :: jsstring
  violations :: "ComplianceViolation list"
  status :: status

record SeverityCounts =
  error :: nat
  warning :: nat
  info :: nat

record ComplianceReport =
  totalFiles :: nat
  filesChecked :: nat
  totalViolations :: nat
  violationsBySeverity :: SeverityCounts
  fileResults :: "FileComplianceResult list"
  summary :: jsstring

record CheckOptions =
  checkMaintenanceLogs :: bool
  checkPilotLogs :: bool
  checkAirworthiness :: bool
  checkWeightBalance :: bool

section \<open>Status derivation (ComplianceChecker.determineStatus)\<close>

definition determineStatus :: "ComplianceViolation list \<Rightarrow> status" where
  "determineStatus vs =
     (let hasErrors = list_ex (\<lambda>v. severity v = Error) vs;
          hasWarnings = list_ex (\<lambda>v. severity v = Warning) vs
      in if hasErrors then FAIL else if hasWarnings then WARNING else PASS)"

section \<open>Report aggregation (ComplianceChecker.generateReport)\<close>

text \<open>The increment \<open>violationsBySeverity[violation.severity]++\<close>.\<close>

definition bump :: "SeverityCounts \<Rightarrow> ComplianceViolation \<Rightarrow> SeverityCounts" where
  "bump c v =
     (case severity v of
        Error \<Rightarrow> c\<lparr>error := error c + 1\<rparr>
      | Warning \<Rightarrow> c\<lparr>warning := warning c + 1\<rparr>
      | Info \<Rightarrow> c\<lparr>info := info c + 1\<rparr>)"

definition tally :: "FileComplianceResult list \<Rightarrow> SeverityCounts" where
  "tally frs =
     foldl (\<lambda>c r. foldl bump c (violations r)) \<lparr>error = 0, warning = 0, info = 0\<rparr> frs"

definition nl :: jsstring where
  "nl = [10]"

definition checkMark :: jsstring where
  "checkMark = [0x2705]"

definition warnSign :: jsstring where
  "warnSign = [0x26A0, 0xFE0F]"

definition crossMark :: jsstring where
  "crossMark = [0x274C]"



definition generateReport :: "FileComplianceResult list \<Rightarrow> ComplianceReport" where
  "generateReport frs =
     (let total = foldl (\<lambda>sum r. sum + length (violations r)) 0 frs;
          bySeverity = tally frs;
          failedFiles = length (filter (\<lambda>r. status r = FAIL) frs);
          warningFiles = length (filter (\<lambda>r. status r = WARNING) frs);
          passedFiles = length (filter (\<lambda>r. status r = PASS) frs);
          s0 = lit ''Aviation Compliance Check Complete'' @ nl @ nl;
          s1 = s0 @ lit ''Files Checked: '' @ showNumber (length frs) @ nl;
          s2 = s1 @ checkMark @ lit '' Passed: '' @ showNumber passedFiles @ nl;
          s3 = s2 @ warnSign @ lit ''  Warnings: '' @ showNumber warningFiles @ nl;
          s4 = s3 @ crossMark @ lit '' Failed: '' @ showNumber failedFiles @ nl @ nl;
          s5 = s4 @ lit ''Total Violations: '' @ showNumber total @ nl;
          s6 = s5 @ lit ''  - Errors: '' @ showNumber (error bySeverity) @ nl;
          s7 = s6 @ lit ''  - Warnings: '' @ showNumber (warning bySeverity) @ nl;
          s8 = s7 @ lit ''  - Info: '' @ showNumber (info bySeverity) @ nl
      in \<lparr>totalFiles = length frs,
          filesChecked = length frs,
          totalViolations = total,
          violationsBySeverity = bySeverity,
          fileResults = frs,
          summary = s8\<rparr>)"

section \<open>Regular expressions (the subset of ECMAScript that rules.ts uses)\<close>

text \<open>
  The rules test documents with regular-expression literals. The patterns of rules.ts use
  literal characters, character classes, sequencing, ordered alternation, optional groups,
  greedy quantifiers on single-character atoms and one word-boundary assertion. The matcher
  below is the backtracking matcher of the language for that subset: from a start index it
  returns the end indices of all matches in the order in which backtracking tries them, so
  the head of the list is the match the engine reports.
\<close>

datatype regex =
    Eps
  | Chr "jschar \<Rightarrow> bool"
  | Seq regex regex
  | Alt regex regex
  | Opt regex
  | Rep nat "nat option" "jschar \<Rightarrow> bool"
  | WordB

definition isDigit :: "jschar \<Rightarrow> bool" where
  "isDigit c \<longleftrightarrow> 48 \<le> c \<and> c \<le> 57"

text \<open>\<open>\s\<close>: the WhiteSpace and LineTerminator code points of ECMAScript.\<close>

definition isSpace :: "jschar \<Rightarrow> bool" where
  "isSpace c \<longleftrightarrow>
     (9 \<le> c \<and> c \<le> 13) \<or> c = 32 \<or> c = 0xA0 \<or> c = 0x1680 \<or>
     (0x2000 \<le> c \<and> c \<le> 0x200A) \<or> c = 0x2028 \<or> c = 0x2029 \<or> c = 0x202F \<or>
     c = 0x205F \<or> c = 0x3000 \<or> c = 0xFEFF"

text \<open>\<open>.\<close> without the \<open>s\<close> flag: any code unit but a line terminator.\<close>

definition isDot :: "jschar \<Rightarrow> bool" where
  "isDot c \<longleftrightarrow> c \<noteq> 10 \<and> c \<noteq> 13 \<and> c \<noteq> 0x2028 \<and> c \<noteq> 0x2029"

definition isWordChar :: "jschar \<Rightarrow> bool" where
  "isWordChar c \<longleftrightarrow>
     (97 \<le> c \<and> c \<le> 122) \<or> (65 \<le> c \<and> c \<le> 90) \<or> (48 \<le> c \<and> c \<le> 57) \<or> c = 95"

text \<open>
  The \<open>i\<close> flag (without \<open>u\<close>) compares canonicalised code units; canonicalisation
  upper-cases, and never maps a code unit above 127 to one below 128. Every pattern
  character of rules.ts is ASCII, so a pattern character matches exactly the ASCII code
  units that agree with it after upper-casing \<open>a\<close>..\<open>z\<close>.
\<close>

definition upperAscii :: "jschar \<Rightarrow> jschar" where
  "upperAscii c = (if 97 \<le> c \<and> c \<le> 122 then c - 32 else c)"

definition ci :: "char \<Rightarrow> jschar \<Rightarrow> bool" where
  "ci p c \<longleftrightarrow> upperAscii c = upperAscii (of_char p)"

text \<open>\<open>[A-Z]\<close>, \<open>[A-Z0-9]\<close> and \<open>[LRC]\<close> under the \<open>i\<close> flag; \<open>[-\/]\<close>.\<close>

definition isLetter :: "jschar \<Rightarrow> bool" where
  "isLetter c \<longleftrightarrow> 65 \<le> upperAscii c \<and> upperAscii c \<le> 90"

definition isAlnum :: "jschar \<Rightarrow> bool" where
  "isAlnum c \<longleftrightarrow> isLetter c \<or> isDigit c"

definition isLRC :: "jschar \<Rightarrow> bool" where
  "isLRC c \<longleftrightarrow> ci CHR ''L'' c \<or> ci CHR ''R'' c \<or> ci CHR ''C'' c"

definition isDateSep :: "jschar \<Rightarrow> bool" where
  "isDateSep c \<longleftrightarrow> c = 45 \<or> c = 47"

fun rmatch :: "regex \<Rightarrow> jsstring \<Rightarrow> nat \<Rightarrow> nat list" where
  "rmatch Eps s i = [i]"
| "rmatch (Chr p) s i = (if i < length s \<and> p (s ! i) then [Suc i] else [])"
| "rmatch (Seq a b) s i = concat (map (rmatch b s) (rmatch a s i))"
| "rmatch (Alt a b) s i = rmatch a s i @ rmatch b s i"
| "rmatch (Opt a) s i = rmatch a s i @ [i]"
| "rmatch (Rep m n p) s i =
     (let avail = length (takeWhile p (drop i s));
          k = (case n of None \<Rightarrow> avail | Some n' \<Rightarrow> min avail n')
      in if k < m then [] else map (\<lambda>j. i + j) (rev [m..<Suc k]))"
| "rmatch WordB s i =
     (let a = (0 < i \<and> i \<le> length s \<and> isWordChar (s ! (i - 1)));
          b = (i < length s \<and> isWordChar (s ! i))
      in if a \<noteq> b then [i] else [])"

text \<open>
  \<open>RegExp.prototype.exec\<close> for a pattern without the \<open>g\<close> and \<open>y\<close> flags: the
  start indices are tried from left to right, and the first one with a match wins.
\<close>

fun scan :: "regex \<Rightarrow> jsstring \<Rightarrow> nat list \<Rightarrow> (nat \<times> nat) option" where
  "scan r s [] = None"
| "scan r s (i # is) = (case rmatch r s i of [] \<Rightarrow> scan r s is | e # _ \<Rightarrow> Some (i, e))"

definition exec :: "regex \<Rightarrow> jsstring \<Rightarrow> (nat \<times> nat) option" where
  "exec r s = scan r s [0..<Suc (length s)]"

text \<open>\<open>pattern.test(content)\<close>.\<close>

definition test :: "regex \<Rightarrow> jsstring \<Rightarrow> bool" where
  "test r s \<longleftrightarrow> exec r s \<noteq> None"

text \<open>
  \<open>content.match(pattern)\<close> followed by \<open>match[1]\<close>, for a pattern that is one capture
  group around the whole expression (the only use in rules.ts): the matched substring,
  or \<open>None\<close> for the \<open>null\<close> of a failed match.
\<close>

definition match1 :: "regex \<Rightarrow> jsstring \<Rightarrow> jsstring option" where
  "match1 r s = (case exec r s of None \<Rightarrow> None | Some (i, e) \<Rightarrow> Some (take (e - i) (drop i s)))"

subsection \<open>Notation for the pattern literals\<close>

fun seqs :: "regex list \<Rightarrow> regex" where
  "seqs [] = Eps"
| "seqs [r] = r"
| "seqs (r # rs) = Seq r (seqs rs)"

text \<open>A run of literal characters under the \<open>i\<close> flag.\<close>

definition ilit :: "string \<Rightarrow> regex" where
  "ilit s = seqs (map (\<lambda>c. Chr (ci c)) s)"

text \<open>\<open>\s*\<close>, \<open>\s+\<close>, \<open>:?\<close>, \<open>.+\<close>, \<open>\d+\<close>, \<open>\d*\<close>, \<open>\d{m,n}\<close>.\<close>

definition ws0 :: regex where
  "ws0 = Rep 0 None isSpace"

definition ws1 :: regex where
  "ws1 = Rep 1 None isSpace"

definition optChar :: "char \<Rightarrow> regex" where
  "optChar c = Rep 0 (Some 1) (ci c)"

definition anyPlus :: regex where
  "anyPlus = Rep 1 None isDot"

definition digitsPlus :: regex where
  "digitsPlus = Rep 1 None isDigit"

definition digitsStar :: regex where
  "digitsStar = Rep 0 None isDigit"

definition digitsBetween :: "nat \<Rightarrow> nat \<Rightarrow> regex" where
  "digitsBetween m n = Rep m (Some n) isDigit"

text \<open>\<open>\s*:?\s*\<close>, the separator between a field label and its value.\<close>

definition fieldSep :: "regex list" where
  "fieldSep = [ws0, optChar CHR '':'', ws0]"

text \<open>\<open>\d+\.?\d*\<close>\<close>

definition decimal :: "regex list" where
  "decimal = [digitsPlus, optChar CHR ''.'', digitsStar]"

text \<open>\<open>\d{1,2}[-\/]\d{1,2}[-\/]\d{2,4}\<close>\<close>

definition dateShape :: regex where
  "dateShape = seqs [digitsBetween 1 2, Chr isDateSep, digitsBetween 1 2, Chr isDateSep,
                     digitsBetween 2 4]"

fun alts :: "regex list \<Rightarrow> regex" where
  "alts [] = Chr (\<lambda>c. False)"
| "alts [r] = r"
| "alts (r # rs) = Alt r (alts rs)"

section \<open>Rules (rules.ts)\<close>

text \<open>
  The rules read two things of the JavaScript runtime, and the checker two more of the
  file system: the clock (\<open>new Date().getTime()\<close>), the date parser
  (\<open>new Date(s).getTime()\<close>, \<open>None\<close> standing for the \<open>NaN\<close> of an invalid
  date), \<open>glob\<close> with the checker's ignore list, and \<open>fs.readFileSync\<close>, which
  returns the content of a file or throws. Time values are milliseconds since the epoch.
  A run lasts a moment against the 365 days that the clock is compared with, so a run
  has one clock reading.
\<close>

datatype js_error = JsError jsstring

record Runtime =
  dateNow :: int
  dateParse :: "jsstring \<Rightarrow> int option"
  glob :: "jsstring \<Rightarrow> jsstring list"
  readFileSync :: "jsstring \<Rightarrow> js_error + jsstring"

text \<open>
  A rule. Its \<open>check\<close> is a JavaScript function: it may throw (\<open>Inl\<close>) instead of
  returning its violations.
\<close>

record ComplianceRule =
  rule_id :: jsstring
  rule_name :: jsstring
  rule_description :: jsstring
  rule_category :: category
  rule_severity :: severity
  rule_regulation :: jsstring
  check :: "Runtime \<Rightarrow> jsstring \<Rightarrow> jsstring \<Rightarrow> js_error + ComplianceViolation list"

definition dquote :: jsstring where
  "dquote = [34]"

text \<open>
  The loop shared by the checklist rules: \<open>items.forEach(item => { if
  (!pattern.test(content)) violations.push(...) })\<close>, from a given \<open>violations\<close>.
\<close>

definition forEachMissing ::
  "('a \<Rightarrow> regex) \<Rightarrow> ('a \<Rightarrow> ComplianceViolation) \<Rightarrow> jsstring \<Rightarrow> 'a list \<Rightarrow>
   ComplianceViolation list \<Rightarrow> ComplianceViolation list" where
  "forEachMissing pat mk content items vs0 =
     foldl (\<lambda>vs item. if \<not> test (pat item) content then vs @ [mk item] else vs)
       vs0 items"

subsection \<open>Maintenance (14 CFR Part 43)\<close>

definition maintDatePattern :: regex where
  "maintDatePattern = seqs ([ilit ''date''] @ fieldSep @ [dateShape])"

definition maint001Fields :: "(jsstring \<times> regex \<times> jsstring) list" where
  "maint001Fields =
     [(lit ''description'',
       seqs ([ilit ''description''] @ fieldSep @ [anyPlus]),
       lit ''Description of work performed''),
      (lit ''date'', maintDatePattern, lit ''Date of completion''),
      (lit ''aircraft'',
       seqs ([alts [ilit ''aircraft'', seqs [ilit ''tail'', ws0, ilit ''number''],
                    ilit ''registration'']] @ fieldSep @
             [Chr isLetter, optChar CHR ''-'', Rep 1 None isAlnum]),
       lit ''Aircraft identification''),
      (lit ''signature'',
       seqs ([alts [ilit ''signature'', seqs [ilit ''signed'', ws0, ilit ''by''],
                    ilit ''mechanic'']] @ fieldSep @ [anyPlus]),
       lit ''Signature and certificate number'')]"

definition maint001Violation :: "jsstring \<times> regex \<times> jsstring \<Rightarrow> ComplianceViolation" where
  "maint001Violation item =
     (case item of (field, pattern, name) \<Rightarrow>
        \<lparr>ruleId = lit ''MAINT-001'', line = None,
         message = lit ''Missing required field: '' @ name,
         severity = Error, regulation = lit ''14 CFR 43.9(a)'',
         suggestion = Some (lit ''Add '' @ field @ lit '' field to maintenance log entry'')\<rparr>)"

definition maint001 :: ComplianceRule where
  "maint001 =
     \<lparr>rule_id = lit ''MAINT-001'',
      rule_name = lit ''Maintenance Log Entry Required Fields'',
      rule_description =
        lit ''Maintenance records must include required information per 14 CFR 43.9'',
      rule_category = Maintenance, rule_severity = Error,
      rule_regulation = lit ''14 CFR 43.9(a)'',
      check = (\<lambda>rt content filename.
        Inr (forEachMissing (\<lambda>(field, pattern, name). pattern) maint001Violation content
               maint001Fields []))\<rparr>"

definition returnToServicePattern :: regex where
  "returnToServicePattern =
     Alt (seqs [ilit ''return'', Opt (ilit ''ed''), ws1, ilit ''to'', ws1, ilit ''service''])
         (seqs [ilit ''approved'', ws1, ilit ''for'', ws1, ilit ''return''])"

definition maint002 :: ComplianceRule where
  "maint002 =
     \<lparr>rule_id = lit ''MAINT-002'',
      rule_name = lit ''Return to Service Statement'',
      rule_description = lit ''Maintenance must include return to service statement'',
      rule_category = Maintenance, rule_severity = Error,
      rule_regulation = lit ''14 CFR 43.9(a)(4)'',
      check = (\<lambda>rt content filename.
        Inr (if \<not> test returnToServicePattern content
             then [\<lparr>ruleId = lit ''MAINT-002'', line = None,
                    message = lit ''Missing return to service statement'',
                    severity = Error, regulation = lit ''14 CFR 43.9(a)(4)'',
                    suggestion = Some (lit ''Include '' @ dquote @
                      lit ''Approved for return to service'' @ dquote @
                      lit '' or equivalent statement'')\<rparr>]
             else []))\<rparr>"

definition annualPattern :: regex where
  "annualPattern = seqs [ilit ''annual'', ws1, ilit ''inspection'']"

definition appendixDPattern :: regex where
  "appendixDPattern =
     Alt (seqs [ilit ''appendix'', ws1, ilit ''d''])
         (seqs [ilit ''14'', ws1, ilit ''cfr'', ws1, ilit ''43'', ws1, ilit ''appendix'', ws1,
                ilit ''d''])"

definition maint003 :: ComplianceRule where
  "maint003 =
     \<lparr>rule_id = lit ''MAINT-003'',
      rule_name = lit ''Annual Inspection Documentation'',
      rule_description = lit ''Annual inspections must reference 14 CFR 43 Appendix D'',
      rule_category = Maintenance, rule_severity = Error,
      rule_regulation = lit ''14 CFR 91.409(a)'',
      check = (\<lambda>rt content filename.
        Inr (if test annualPattern content
             then (if \<not> test appendixDPattern content
                   then [\<lparr>ruleId = lit ''MAINT-003'', line = None,
                          message =
                            lit ''Annual inspection must reference 14 CFR 43 Appendix D'',
                          severity = Error, regulation = lit ''14 CFR 91.409(a)'',
                          suggestion = Some (lit ''Include reference to '' @ dquote @
                            lit ''14 CFR 43 Appendix D'' @ dquote @
                            lit '' in annual inspection entry'')\<rparr>]
                   else [])
             else []))\<rparr>"

definition adPattern :: regex where
  "adPattern =
     seqs [WordB, ilit ''AD'', ws1, digitsBetween 2 4, Chr (ci CHR ''-''), digitsBetween 2 2,
           Chr (ci CHR ''-''), digitsBetween 2 2]"

definition compliancePattern :: regex where
  "compliancePattern =
     seqs [alts [ilit ''complied'', ilit ''compliance'', ilit ''complies''], ws1, ilit ''with'']"

definition maint004 :: ComplianceRule where
  "maint004 =
     \<lparr>rule_id = lit ''MAINT-004'',
      rule_name = lit ''Airworthiness Directive Compliance'',
      rule_description = lit ''AD compliance must be documented'',
      rule_category = Maintenance, rule_severity = Warning,
      rule_regulation = lit ''14 CFR 39'',
      check = (\<lambda>rt content filename.
        Inr (if test adPattern content
             then (if \<not> test compliancePattern content
                   then [\<lparr>ruleId = lit ''MAINT-004'', line = None,
                          message = lit ''AD reference found but compliance statement missing'',
                          severity = Warning, regulation = lit ''14 CFR 39'',
                          suggestion = Some (lit ''Include statement confirming AD compliance'')\<rparr>]
                   else [])
             else []))\<rparr>"

definition maintenanceLogRules :: "ComplianceRule list" where
  "maintenanceLogRules = [maint001, maint002, maint003, maint004]"

subsection \<open>Pilot logbook (14 CFR Part 61)\<close>

definition pilot001Fields :: "(jsstring \<times> regex \<times> jsstring) list" where
  "pilot001Fields =
     [(lit ''date'', seqs ([ilit ''date''] @ fieldSep @ [dateShape]), lit ''Date''),
      (lit ''aircraft'',
       seqs ([alts [ilit ''aircraft'', ilit ''make'', ilit ''model'']] @ fieldSep @ [anyPlus]),
       lit ''Aircraft make and model''),
      (lit ''registration'',
       seqs ([alts [ilit ''tail'', ilit ''registration'', seqs [ilit ''N'', ws0, ilit ''number'']]] @
             fieldSep @ [Chr isLetter, optChar CHR ''-'', Rep 1 None isAlnum]),
       lit ''Aircraft registration''),
      (lit ''flight-time'',
       seqs ([alts [seqs [ilit ''total'', ws1, ilit ''time''], seqs [ilit ''flight'', ws1, ilit ''time''],
                    ilit ''duration'']] @ fieldSep @ decimal),
       lit ''Total flight time'')]"

definition pilot001Violation :: "jsstring \<times> regex \<times> jsstring \<Rightarrow> ComplianceViolation" where
  "pilot001Violation item =
     (case item of (field, pattern, name) \<Rightarrow>
        \<lparr>ruleId = lit ''PILOT-001'', line = None,
         message = lit ''Missing required field: '' @ name,
         severity = Error, regulation = lit ''14 CFR 61.51(b)'',
         suggestion = Some (lit ''Add '' @ field @ lit '' to logbook entry'')\<rparr>)"

definition pilot001 :: ComplianceRule where
  "pilot001 =
     \<lparr>rule_id = lit ''PILOT-001'',
      rule_name = lit ''Logbook Entry Required Fields'',
      rule_description =
        lit ''Pilot logbook entries must contain required information per 14 CFR 61.51'',
      rule_category = PilotLog, rule_severity = Error,
      rule_regulation = lit ''14 CFR 61.51(b)'',
      check = (\<lambda>rt content filename.
        Inr (forEachMissing (\<lambda>(field, pattern, name). pattern) pilot001Violation content
               pilot001Fields []))\<rparr>"

definition nightPattern :: regex where
  "nightPattern = ilit ''night''"

definition nightTimePattern :: regex where
  "nightTimePattern =
     seqs ([alts [seqs [ilit ''night'', ws1, ilit ''time''], seqs [ilit ''night'', ws1, ilit ''flight'']]] @
           fieldSep @ decimal)"

definition pilot002 :: ComplianceRule where
  "pilot002 =
     \<lparr>rule_id = lit ''PILOT-002'',
      rule_name = lit ''Night Flight Time Logging'',
      rule_description = lit ''Night time must be logged if operation occurred after sunset'',
      rule_category = PilotLog, rule_severity = Warning,
      rule_regulation = lit ''14 CFR 61.51(b)(3)'',
      check = (\<lambda>rt content filename.
        Inr (if test nightPattern content \<and> \<not> test nightTimePattern content
             then [\<lparr>ruleId = lit ''PILOT-002'', line = None,
                    message = lit ''Night operation indicated but night time not logged'',
                    severity = Warning, regulation = lit ''14 CFR 61.51(b)(3)'',
                    suggestion = Some (lit ''Log night flight time separately'')\<rparr>]
             else []))\<rparr>"

definition approachPattern :: regex where
  "approachPattern = alts [ilit ''approach'', ilit ''approaches'', ilit ''IAP'']"

definition approachDetailsPattern :: regex where
  "approachDetailsPattern =
     seqs [alts [ilit ''ILS'', ilit ''VOR'', ilit ''RNAV'', ilit ''GPS'', ilit ''LOC'', ilit ''NDB''],
           ws1, Opt (ilit ''RWY''), ws0, digitsBetween 1 2, Rep 0 (Some 1) isLRC]"

definition pilot003 :: ComplianceRule where
  "pilot003 =
     \<lparr>rule_id = lit ''PILOT-003'',
      rule_name = lit ''Instrument Approach Logging'',
      rule_description = lit ''Instrument approaches must include location and type'',
      rule_category = PilotLog, rule_severity = Warning,
      rule_regulation = lit ''14 CFR 61.51(g)'',
      check = (\<lambda>rt content filename.
        Inr (if test approachPattern content
             then (if \<not> test approachDetailsPattern content
                   then [\<lparr>ruleId = lit ''PILOT-003'', line = None,
                          message = lit ''Instrument approach logged without type and runway'',
                          severity = Warning, regulation = lit ''14 CFR 61.51(g)'',
                          suggestion =
                            Some (lit ''Include approach type (ILS, RNAV, etc.) and runway'')\<rparr>]
                   else [])
             else []))\<rparr>"

definition pilotLogRules :: "ComplianceRule list" where
  "pilotLogRules = [pilot001, pilot002, pilot003]"

subsection \<open>Airworthiness documentation\<close>

definition wbPattern :: regex where
  "wbPattern = seqs [ilit ''weight'', ws1, Alt (ilit ''and'') (ilit ''&''), ws1, ilit ''balance'']"

definition arowDocuments :: "(jsstring \<times> regex) list" where
  "arowDocuments =
     [(lit ''Airworthiness Certificate'', seqs [ilit ''airworthiness'', ws1, ilit ''certificate'']),
      (lit ''Registration'', Alt (ilit ''registration'') (ilit ''n-number'')),
      (lit ''Operating Limitations'',
       alts [seqs [ilit ''operating'', ws1, ilit ''limitations''],
             seqs [ilit ''pilot'', ws1, ilit ''operating'', ws1, ilit ''handbook''],
             ilit ''POH'']),
      (lit ''Weight and Balance'', wbPattern)]"

definition arow001Violation :: "jsstring \<times> regex \<Rightarrow> ComplianceViolation" where
  "arow001Violation item =
     (case item of (name, pattern) \<Rightarrow>
        \<lparr>ruleId = lit ''AROW-001'', line = None,
         message = lit ''Missing AROW document reference: '' @ name,
         severity = Error, regulation = lit ''14 CFR 91.203'',
         suggestion = Some (lit ''Ensure '' @ name @ lit '' is documented and current'')\<rparr>)"

definition arow001 :: ComplianceRule where
  "arow001 =
     \<lparr>rule_id = lit ''AROW-001'',
      rule_name = lit ''AROW Document Checklist'',
      rule_description = lit ''Aircraft must have required documents (AROW)'',
      rule_category = Airworthiness, rule_severity = Error,
      rule_regulation = lit ''14 CFR 91.203'',
      check = (\<lambda>rt content filename.
        Inr (forEachMissing snd arow001Violation content arowDocuments []))\<rparr>"

text \<open>\<open>/(\d{1,2}[-\/]\d{1,2}[-\/]\d{2,4})/\<close>: no \<open>i\<close> flag, one group around it all.\<close>

definition inspDatePattern :: regex where
  "inspDatePattern = dateShape"

definition insp001Violation :: ComplianceViolation where
  "insp001Violation =
     \<lparr>ruleId = lit ''INSP-001'', line = None,
      message = lit ''Annual inspection appears to be out of date'',
      severity = Error, regulation = lit ''14 CFR 91.409(a)'',
      suggestion = Some
        (lit ''Annual inspection must be completed within preceding 12 calendar months'')\<rparr>"

text \<open>
  The inspection-currency check. \<open>daysSinceInspection\<close> is a quotient of time values;
  with an invalid date it is \<open>NaN\<close>, and \<open>NaN > 365\<close> is false. Time values are
  integers below \<open>2^53\<close> in magnitude, for which the floating-point quotient exceeds 365
  exactly when the exact quotient does, so the quotient is taken in the reals.
\<close>

definition insp001Check :: "Runtime \<Rightarrow> jsstring \<Rightarrow> ComplianceViolation list" where
  "insp001Check rt content =
     (if test annualPattern content
      then (case match1 inspDatePattern content of
              None \<Rightarrow> []
            | Some dateString \<Rightarrow>
                (case dateParse rt dateString of
                   None \<Rightarrow> []
                 | Some inspectionDate \<Rightarrow>
                     (let today = dateNow rt;
                          daysSinceInspection =
                            real_of_int (today - inspectionDate) / (1000 * 60 * 60 * 24)
                      in if daysSinceInspection > 365 then [insp001Violation] else [])))
      else [])"

definition insp001 :: ComplianceRule where
  "insp001 =
     \<lparr>rule_id = lit ''INSP-001'',
      rule_name = lit ''Inspection Currency'',
      rule_description = lit ''Annual inspection must be current'',
      rule_category = Airworthiness, rule_severity = Error,
      rule_regulation = lit ''14 CFR 91.409(a)'',
      check = (\<lambda>rt content filename. Inr (insp001Check rt content))\<rparr>"

definition airworthinessRules :: "ComplianceRule list" where
  "airworthinessRules = [arow001, insp001]"

subsection \<open>Weight and balance\<close>

definition emptyWeightPattern :: regex where
  "emptyWeightPattern = seqs ([ilit ''empty'', ws1, ilit ''weight''] @ fieldSep @ [digitsPlus])"

definition cgPattern :: regex where
  "cgPattern =
     seqs ([Alt (seqs [ilit ''center'', ws1, ilit ''of'', ws1, ilit ''gravity'']) (ilit ''CG'')] @
           fieldSep @ decimal)"

definition usefulLoadPattern :: regex where
  "usefulLoadPattern = seqs ([ilit ''useful'', ws1, ilit ''load''] @ fieldSep @ [digitsPlus])"

definition wbRequiredData :: "(jsstring \<times> regex) list" where
  "wbRequiredData =
     [(lit ''Empty Weight'', emptyWeightPattern),
      (lit ''CG Location'', cgPattern),
      (lit ''Useful Load'', usefulLoadPattern)]"

definition wb001Violation :: "jsstring \<times> regex \<Rightarrow> ComplianceViolation" where
  "wb001Violation item =
     (case item of (name, pattern) \<Rightarrow>
        \<lparr>ruleId = lit ''WB-001'', line = None,
         message = lit ''Missing weight and balance data: '' @ name,
         severity = Error, regulation = lit ''14 CFR 91.9'',
         suggestion =
           Some (lit ''Include '' @ name @ lit '' in weight and balance documentation'')\<rparr>)"

definition wb001Check :: "jsstring \<Rightarrow> ComplianceViolation list" where
  "wb001Check content =
     (if test wbPattern content
      then forEachMissing snd wb001Violation content wbRequiredData []
      else [])"

definition wb001 :: ComplianceRule where
  "wb001 =
     \<lparr>rule_id = lit ''WB-001'',
      rule_name = lit ''Weight and Balance Data'',
      rule_description = lit ''Current weight and balance data must be available'',
      rule_category = WeightBalance, rule_severity = Error,
      rule_regulation = lit ''14 CFR 91.9'',
      check = (\<lambda>rt content filename. Inr (wb001Check content))\<rparr>"

definition weightBalanceRules :: "ComplianceRule list" where
  "weightBalanceRules = [wb001]"

definition allRules :: "ComplianceRule list" where
  "allRules = maintenanceLogRules @ pilotLogRules @ airworthinessRules @ weightBalanceRules"

section \<open>The checker (checker.ts)\<close>

record ComplianceChecker =
  options :: CheckOptions
  rules :: "ComplianceRule list"

definition loadRules :: "ComplianceChecker \<Rightarrow> ComplianceChecker" where
  "loadRules this =
     (let t1 = (if checkMaintenanceLogs (options this)
                then this\<lparr>rules := rules this @ maintenanceLogRules\<rparr> else this);
          t2 = (if checkPilotLogs (options t1)
                then t1\<lparr>rules := rules t1 @ pilotLogRules\<rparr> else t1);
          t3 = (if checkAirworthiness (options t2)
                then t2\<lparr>rules := rules t2 @ airworthinessRules\<rparr> else t2);
          t4 = (if checkWeightBalance (options t3)
                then t3\<lparr>rules := rules t3 @ weightBalanceRules\<rparr> else t3)
      in t4)"

text \<open>The constructor: the field initialiser \<open>rules = []\<close>, then \<open>loadRules()\<close>.\<close>

definition newChecker :: "CheckOptions \<Rightarrow> ComplianceChecker" where
  "newChecker opts = loadRules \<lparr>options = opts, rules = []\<rparr>"

text \<open>
  \<open>[...new Set(allFiles)]\<close>: a Set keeps its elements in insertion order, and adding
  an element it already holds changes nothing.
\<close>

definition setAdd :: "'a list \<Rightarrow> 'a \<Rightarrow> 'a list" where
  "setAdd seen x = (if x \<in> set seen then seen else seen @ [x])"

definition newSet :: "'a list \<Rightarrow> 'a list" where
  "newSet xs = foldl setAdd [] xs"

definition findFiles :: "Runtime \<Rightarrow> jsstring list \<Rightarrow> jsstring list" where
  "findFiles rt patterns =
     (let allFiles = foldl (\<lambda>allFiles pattern. allFiles @ glob rt pattern) [] patterns
      in newSet allFiles)"

text \<open>
  The \<open>console.error\<close> output of a run: one entry per caught error, the formatted
  prefix and the error object.
\<close>

type_synonym console = "(jsstring \<times> js_error) list"

definition runRule ::
  "Runtime \<Rightarrow> jsstring \<Rightarrow> jsstring \<Rightarrow> ComplianceViolation list \<times> console \<Rightarrow> ComplianceRule \<Rightarrow>
   ComplianceViolation list \<times> console" where
  "runRule rt content file acc rule =
     (case acc of (vs, out) \<Rightarrow>
        (case check rule rt content file of
           Inr ruleViolations \<Rightarrow> (vs @ ruleViolations, out)
         | Inl err \<Rightarrow>
             (vs, out @ [(lit ''Error checking rule '' @ rule_id rule @ lit '' on '' @ file @
                          lit '':'', err)])))"

definition checkFile ::
  "ComplianceChecker \<Rightarrow> Runtime \<Rightarrow> jsstring \<Rightarrow> js_error + FileComplianceResult \<times> console" where
  "checkFile this rt file =
     (case readFileSync rt file of
        Inl err \<Rightarrow> Inl err
      | Inr content \<Rightarrow>
          (case foldl (runRule rt content file) ([], []) (rules this) of
             (vs, out) \<Rightarrow>
               Inr (\<lparr>filename = file, violations = vs, status = determineStatus vs\<rparr>, out)))"

fun checkEach ::
  "ComplianceChecker \<Rightarrow> Runtime \<Rightarrow> jsstring list \<Rightarrow> FileComplianceResult list \<times> console \<Rightarrow>
   js_error + FileComplianceResult list \<times> console" where
  "checkEach this rt [] acc = Inr acc"
| "checkEach this rt (file # files) acc =
     (case checkFile this rt file of
        Inl err \<Rightarrow> Inl err
      | Inr (result, out) \<Rightarrow> checkEach this rt files (fst acc @ [result], snd acc @ out))"

definition checkFiles ::
  "ComplianceChecker \<Rightarrow> Runtime \<Rightarrow> jsstring list \<Rightarrow> js_error + ComplianceReport \<times> console" where
  "checkFiles this rt filePatterns =
     (let files = findFiles rt filePatterns
      in case checkEach this rt files ([], []) of
           Inl err \<Rightarrow> Inl err
         | Inr (results, out) \<Rightarrow> Inr (generateReport results, out))"

section \<open>Markdown rendering (ComplianceChecker.generateMarkdownReport)\<close>








section \<open>Auxiliary notions for the proofs\<close>

text \<open>The number of violations a per-severity tally accounts for.\<close>

definition countSum :: "SeverityCounts \<Rightarrow> nat" where
  "countSum c = error c + warning c + info c"

text \<open>
  The spec's reading of the configured rule set: the catalogs of the enabled categories,
  in catalog order, and whether a category is enabled.
\<close>

definition enabledCatalogs :: "CheckOptions \<Rightarrow> ComplianceRule list list" where
  "enabledCatalogs opts =
     (if checkMaintenanceLogs opts then [maintenanceLogRules] else []) @
     (if checkPilotLogs opts then [pilotLogRules] else []) @
     (if checkAirworthiness opts then [airworthinessRules] else []) @
     (if checkWeightBalance opts then [weightBalanceRules] else [])"

definition categoryEnabled :: "CheckOptions \<Rightarrow> category \<Rightarrow> bool" where
  "categoryEnabled opts c =
     (case c of
        Maintenance \<Rightarrow> checkMaintenanceLogs opts
      | PilotLog \<Rightarrow> checkPilotLogs opts
      | Airworthiness \<Rightarrow> checkAirworthiness opts
      | WeightBalance \<Rightarrow> checkWeightBalance opts)"

text \<open>
  What one rule contributes to a document: the violations it returns, if it returns, and
  the console entry of its error, if it throws.
\<close>

definition returned ::
  "Runtime \<Rightarrow> jsstring \<Rightarrow> jsstring \<Rightarrow> ComplianceRule \<Rightarrow> ComplianceViolation list option" where
  "returned rt content file rule =
     (case check rule rt content file of Inr vs \<Rightarrow> Some vs | Inl err \<Rightarrow> None)"

definition thrown ::
  "Runtime \<Rightarrow> jsstring \<Rightarrow> jsstring \<Rightarrow> ComplianceRule \<Rightarrow> (jsstring \<times> js_error) option" where
  "thrown rt content file rule =
     (case check rule rt content file of
        Inr vs \<Rightarrow> None
      | Inl err \<Rightarrow>
          Some (lit ''Error checking rule '' @ rule_id rule @ lit '' on '' @ file @ lit '':'', err))"

text \<open>Example data: a rule whose check throws, and a runtime holding three documents.\<close>

definition throwingRule :: ComplianceRule where
  "throwingRule =
     \<lparr>rule_id = lit ''X-001'', rule_name = lit ''Throwing rule'',
      rule_description = lit ''A rule whose check throws'',
      rule_category = Maintenance, rule_severity = Info, rule_regulation = lit ''none'',
      check = (\<lambda>rt content filename. Inl (JsError (lit ''boom'')))\<rparr>"

definition sampleRuntime :: Runtime where
  "sampleRuntime =
     \<lparr>dateNow = 1793577600000,
      dateParse = (\<lambda>s. if s = lit ''01/01/2026'' then Some 1767225600000 else None),
      glob = (\<lambda>p. if p = lit ''logs/*.md'' then [lit ''logs/a.md'', lit ''logs/b.md'']
                   else if p = lit ''**/b.md'' then [lit ''logs/b.md'', lit ''old/b.md'']
                   else if p = lit ''logs/b.md'' then [lit ''logs/b.md'']
                   else []),
      readFileSync = (\<lambda>f. if f = lit ''logs/a.md''
                            then Inr (lit ''Weight and Balance. Empty Weight: 1500 CG: 38.5'')
                          else if f = lit ''logs/b.md''
                            then Inr (lit ''Annual inspection 01/01/2026'')
                          else if f = lit ''old/b.md'' then Inr (lit ''Night'')
                          else Inl (JsError (lit ''ENOENT'')))\<rparr>"

text \<open>
  The declarative reading of a pattern: the set of strings it matches. It serves to say
  what a ``date-shaped substring'' is without reference to the matcher. The word-boundary
  assertion depends on the surrounding text and has no such reading; the date pattern
  does not use it.
\<close>

fun lang :: "regex \<Rightarrow> jsstring set" where
  "lang Eps = {[]}"
| "lang (Chr p) = {w. \<exists>c. w = [c] \<and> p c}"
| "lang (Seq a b) = {w. \<exists>u v. w = u @ v \<and> u \<in> lang a \<and> v \<in> lang b}"
| "lang (Alt a b) = lang a \<union> lang b"
| "lang (Opt a) = lang a \<union> {[]}"
| "lang (Rep m n p) =
     {w. m \<le> length w \<and> (case n of None \<Rightarrow> True | Some n' \<Rightarrow> length w \<le> n') \<and> list_all p w}"
| "lang WordB = {}"

fun wordfree :: "regex \<Rightarrow> bool" where
  "wordfree WordB = False"
| "wordfree (Seq a b) = (wordfree a \<and> wordfree b)"
| "wordfree (Alt a b) = (wordfree a \<and> wordfree b)"
| "wordfree (Opt a) = wordfree a"
| "wordfree r = True"

text \<open>\<open>s.substring(i, e)\<close> for \<open>i \<le> e \<le> s.length\<close>.\<close>

definition substringAt :: "jsstring \<Rightarrow> nat \<Rightarrow> nat \<Rightarrow> jsstring" where
  "substringAt s i e = take (e - i) (drop i s)"

text \<open>A date-shaped substring of \<open>s\<close> starts at index \<open>i\<close>.\<close>

definition dateShapedAt :: "jsstring \<Rightarrow> nat \<Rightarrow> bool" where
  "dateShapedAt s i \<longleftrightarrow> (\<exists>e. i \<le> e \<and> e \<le> length s \<and> substringAt s i e \<in> lang dateShape)"

text \<open>Example configurations: only the airworthiness rules, and all rules but those.\<close>

definition airworthinessOnly :: CheckOptions where
  "airworthinessOnly =
     \<lparr>checkMaintenanceLogs = False, checkPilotLogs = False, checkAirworthiness = True,
      checkWeightBalance = False\<rparr>"

definition noAirworthiness :: CheckOptions where
  "noAirworthiness =
     \<lparr>checkMaintenanceLogs = True, checkPilotLogs = True, checkAirworthiness = False,
      checkWeightBalance = True\<rparr>"











section \<open>Status derivation: results\<close>

lemma list_ex_set: "list_ex P xs \<longleftrightarrow> (\<exists>x\<in>set xs. P x)"
  by (induction xs) auto

text \<open>
  Claim C1. The status derived from a violation list is FAIL exactly when some violation
  has severity error, WARNING exactly when none has severity error and some has severity
  warning, and PASS in every other case; a list whose violations all have severity info
  has status PASS.
\<close>

theorem determineStatus_spec:
  "(determineStatus vs = FAIL \<longleftrightarrow> (\<exists>v\<in>set vs. severity v = Error)) \<and>
   (determineStatus vs = WARNING \<longleftrightarrow>
      (\<forall>v\<in>set vs. severity v \<noteq> Error) \<and> (\<exists>v\<in>set vs. severity v = Warning)) \<and>
   (determineStatus vs = PASS \<longleftrightarrow>
      (\<forall>v\<in>set vs. severity v \<noteq> Error) \<and> (\<forall>v\<in>set vs. severity v \<noteq> Warning)) \<and>
   ((\<forall>v\<in>set vs. severity v = Info) \<longrightarrow> determineStatus vs = PASS)"
  by (auto simp: determineStatus_def list_ex_set Let_def)


theorem determineStatus_spec_witness:
  "determineStatus [insp001Violation\<lparr>severity := Info\<rparr>] = PASS"
  using determineStatus_spec [of "[insp001Violation\<lparr>severity := Info\<rparr>]"] by simp

section \<open>Report aggregation: results\<close>

lemma foldl_count:
  "foldl (\<lambda>sum r. sum + length (violations r)) a frs =
     a + sum_list (map (\<lambda>r. length (violations r)) frs)"
  by (induction frs arbitrary: a) simp_all

lemma countSum_bump: "countSum (bump c v) = Suc (countSum c)"
  by (cases "severity v") (simp_all add: bump_def countSum_def)

lemma countSum_foldl_bump: "countSum (foldl bump c vs) = countSum c + length vs"
  by (induction vs arbitrary: c) (simp_all add: countSum_bump)

lemma countSum_files:
  "countSum (foldl (\<lambda>c r. foldl bump c (violations r)) c frs) =
     countSum c + sum_list (map (\<lambda>r. length (violations r)) frs)"
  by (induction frs arbitrary: c) (simp_all add: countSum_foldl_bump)

text \<open>
  Claim C2. For every list of per-file results, the sum of the per-file violation counts
  equals the report's totalViolations, and the error, warning and info counts of the
  report add up to totalViolations as well.
\<close>

theorem generateReport_totals:
  "sum_list (map (\<lambda>r. length (violations r)) frs) = totalViolations (generateReport frs) \<and>
   error (violationsBySeverity (generateReport frs)) +
   warning (violationsBySeverity (generateReport frs)) +
   info (violationsBySeverity (generateReport frs)) = totalViolations (generateReport frs)"
  using countSum_files [of "\<lparr>error = 0, warning = 0, info = 0\<rparr>" frs]
  by (simp add: generateReport_def Let_def foldl_count tally_def countSum_def)

text \<open>
  Claim C10. In every generated report totalFiles equals filesChecked, both equal the
  length of the fileResults list, and that list is the list of results the report was
  generated from.
\<close>

theorem generateReport_file_counts:
  "totalFiles (generateReport frs) = filesChecked (generateReport frs) \<and>
   filesChecked (generateReport frs) = length (fileResults (generateReport frs)) \<and>
   fileResults (generateReport frs) = frs"
  by (simp add: generateReport_def Let_def)


section \<open>Rule configuration: results\<close>

lemma rule_ids: "map rule_id allRules =
  [lit ''MAINT-001'', lit ''MAINT-002'', lit ''MAINT-003'', lit ''MAINT-004'',
   lit ''PILOT-001'', lit ''PILOT-002'', lit ''PILOT-003'', lit ''AROW-001'', lit ''INSP-001'',
   lit ''WB-001'']"
  by (simp add: allRules_def maintenanceLogRules_def pilotLogRules_def airworthinessRules_def
      weightBalanceRules_def maint001_def maint002_def maint003_def maint004_def pilot001_def
      pilot002_def pilot003_def arow001_def insp001_def wb001_def)

lemma distinct_rule_ids: "distinct (map rule_id allRules)"
  unfolding rule_ids by (simp add: lit_def)

lemma distinct_allRules: "distinct allRules"
  using distinct_rule_ids by (rule distinct_map [THEN iffD1, THEN conjunct1])

lemma foldl_setAdd: "distinct (acc @ xs) \<Longrightarrow> foldl setAdd acc xs = acc @ xs"
  by (induction xs arbitrary: acc) (simp_all add: setAdd_def)

lemma newSet_distinct: "distinct xs \<Longrightarrow> newSet xs = xs"
  using foldl_setAdd [of "[]" xs] by (simp add: newSet_def)

lemma filter_cat:
  "(\<forall>r\<in>set xs. rule_category r = c) \<Longrightarrow>
   filter (\<lambda>r. categoryEnabled opts (rule_category r)) xs = (if categoryEnabled opts c then xs else [])"
  by (induction xs) auto

lemma cat_maint: "\<forall>r\<in>set maintenanceLogRules. rule_category r = Maintenance"
  by (simp add: maintenanceLogRules_def maint001_def maint002_def maint003_def maint004_def)
lemma cat_pilot: "\<forall>r\<in>set pilotLogRules. rule_category r = PilotLog"
  by (simp add: pilotLogRules_def pilot001_def pilot002_def pilot003_def)
lemma cat_airw: "\<forall>r\<in>set airworthinessRules. rule_category r = Airworthiness"
  by (simp add: airworthinessRules_def arow001_def insp001_def)
lemma cat_wb: "\<forall>r\<in>set weightBalanceRules. rule_category r = WeightBalance"
  by (simp add: weightBalanceRules_def wb001_def)

lemma enabled_filter:
  "concat (enabledCatalogs opts) = filter (\<lambda>r. categoryEnabled opts (rule_category r)) allRules"
proof -
  have "filter (\<lambda>r. categoryEnabled opts (rule_category r)) allRules =
      (if categoryEnabled opts Maintenance then maintenanceLogRules else []) @
      (if categoryEnabled opts PilotLog then pilotLogRules else []) @
      (if categoryEnabled opts Airworthiness then airworthinessRules else []) @
      (if categoryEnabled opts WeightBalance then weightBalanceRules else [])"
    by (simp only: allRules_def filter_append filter_cat [OF cat_maint] filter_cat [OF cat_pilot]
        filter_cat [OF cat_airw] filter_cat [OF cat_wb])
  then show ?thesis
    by (simp add: enabledCatalogs_def categoryEnabled_def)
qed

lemma loadRules_concat: "rules (newChecker opts) = concat (enabledCatalogs opts)"
  by (simp add: newChecker_def loadRules_def enabledCatalogs_def Let_def)

lemma loadRules_options: "options (newChecker opts) = opts"
  by (simp add: newChecker_def loadRules_def Let_def)

text \<open>
  Claim C3. For every combination of the four flags, the rule set of a newly constructed
  checker is the deduplicated concatenation of the catalogs of the enabled categories, in
  the order maintenance, pilot-log, airworthiness, weight-balance; nothing is dropped by
  the deduplication, so each catalog's internal order is kept; the rule set consists of
  exactly the rules of allRules whose category is enabled, and rule ids are not repeated.
\<close>

theorem loadRules_spec:
  "rules (newChecker opts) = newSet (concat (enabledCatalogs opts)) \<and>
   rules (newChecker opts) = concat (enabledCatalogs opts) \<and>
   rules (newChecker opts) = filter (\<lambda>r. categoryEnabled opts (rule_category r)) allRules \<and>
   distinct (map rule_id (rules (newChecker opts)))"
proof -
  have d: "distinct (concat (enabledCatalogs opts))"
    unfolding enabled_filter using distinct_allRules by simp
  have "distinct (map rule_id (filter (\<lambda>r. categoryEnabled opts (rule_category r)) allRules))"
    using distinct_rule_ids by (rule distinct_map_filter)
  then show ?thesis
    using newSet_distinct [OF d] by (simp add: loadRules_concat enabled_filter)
qed



section \<open>Checking one document: results\<close>

lemma runRule_step:
  "runRule rt content file (vs, out) r =
     (vs @ (case returned rt content file r of None \<Rightarrow> [] | Some x \<Rightarrow> x),
      out @ (case thrown rt content file r of None \<Rightarrow> [] | Some e \<Rightarrow> [e]))"
  by (cases "check r rt content file") (simp_all add: runRule_def returned_def thrown_def)

lemma foldl_runRule:
  "foldl (runRule rt content file) (vs, out) rs =
     (vs @ concat (List.map_filter (returned rt content file) rs),
      out @ List.map_filter (thrown rt content file) rs)"
proof (induction rs arbitrary: vs out)
  case Nil
  show ?case by (simp add: List.map_filter_simps)
next
  case (Cons r rs)
  show ?case
    by (simp add: runRule_step Cons.IH List.map_filter_simps split: option.split)
qed

lemma checkFile_readable:
  "readFileSync rt file = Inr content \<Longrightarrow>
   checkFile this rt file =
     Inr (\<lparr>filename = file,
           violations = concat (List.map_filter (returned rt content file) (rules this)),
           status = determineStatus
             (concat (List.map_filter (returned rt content file) (rules this)))\<rparr>,
          List.map_filter (thrown rt content file) (rules this))"
  by (simp add: checkFile_def foldl_runRule)

text \<open>
  Claim C4. When a document can be read, checking it always produces a result, whatever
  the configured rules do: a rule whose check throws contributes no violation and one
  console entry naming the rule and the file, the rules after it are still evaluated, and
  the violations of the result are exactly the violations of the rules that returned,
  concatenated in rule-configuration order.
\<close>

theorem checkFile_recovers:
  assumes "readFileSync rt file = Inr content"
  shows "checkFile this rt file =
     Inr (\<lparr>filename = file,
           violations = concat (List.map_filter (returned rt content file) (rules this)),
           status = determineStatus
             (concat (List.map_filter (returned rt content file) (rules this)))\<rparr>,
          List.map_filter (thrown rt content file) (rules this))"
  using assms by (rule checkFile_readable)


lemma lit_append: "lit (a @ b) = lit a @ lit b"
  by (simp add: lit_def)

lemma sample_wb_tests:
  "test wbPattern (lit ''Weight and Balance. Empty Weight: 1500 CG: 38.5'')"
  "test emptyWeightPattern (lit ''Weight and Balance. Empty Weight: 1500 CG: 38.5'')"
  "test cgPattern (lit ''Weight and Balance. Empty Weight: 1500 CG: 38.5'')"
  "\<not> test usefulLoadPattern (lit ''Weight and Balance. Empty Weight: 1500 CG: 38.5'')"
  by code_simp+

lemma sample_wb001:
  "wb001Check (lit ''Weight and Balance. Empty Weight: 1500 CG: 38.5'') =
     [wb001Violation (lit ''Useful Load'', usefulLoadPattern)]"
  by (simp add: wb001Check_def forEachMissing_def wbRequiredData_def sample_wb_tests)

theorem checkFile_recovers_witness:
  "checkFile \<lparr>options = \<lparr>checkMaintenanceLogs = False, checkPilotLogs = False,
                          checkAirworthiness = False, checkWeightBalance = True\<rparr>,
              rules = [throwingRule, wb001]\<rparr> sampleRuntime (lit ''logs/a.md'') =
     Inr (\<lparr>filename = lit ''logs/a.md'',
           violations = [wb001Violation (lit ''Useful Load'', usefulLoadPattern)],
           status = FAIL\<rparr>,
          [(lit ''Error checking rule X-001 on logs/a.md:'', JsError (lit ''boom''))])"
proof -
  have r: "readFileSync sampleRuntime (lit ''logs/a.md'') =
      Inr (lit ''Weight and Balance. Empty Weight: 1500 CG: 38.5'')"
    by (simp add: sampleRuntime_def)
  show ?thesis
    unfolding checkFile_recovers [OF r]
    by (simp add: List.map_filter_simps returned_def thrown_def throwingRule_def wb001_def
        sample_wb001 determineStatus_def wb001Violation_def lit_append [symmetric])
qed



section \<open>File discovery: results\<close>














lemma unat_of_char: "unat (of_char c :: jschar) = of_char c"
proof -
  have "(of_char c :: nat) < 65536"
    using nat_of_char_less_256 [of c] by linarith
  then have "(of_char c :: nat) mod 65536 = of_char c"
    by (rule mod_less)
  moreover have "(of_char c :: jschar) = of_nat (of_char c)"
    by (simp add: of_nat_of_char)
  ultimately show ?thesis
    by (simp add: unat_of_nat)
qed

lemma inj_jschar_of_char: "inj (of_char :: char \<Rightarrow> jschar)"
proof (rule injI)
  fix c d :: char
  assume "(of_char c :: jschar) = of_char d"
  then have "unat (of_char c :: jschar) = unat (of_char d :: jschar)"
    by simp
  then show "c = d"
    by (simp add: unat_of_char)
qed

lemma lit_eq [simp]: "lit a = lit b \<longleftrightarrow> a = b"
  by (simp add: lit_def inj_map_eq_map [OF inj_jschar_of_char])





section \<open>Weight and balance: results\<close>

lemma forEachMissing_filter:
  "forEachMissing pat mk content items vs0 =
     vs0 @ map mk (filter (\<lambda>item. \<not> test (pat item) content) items)"
  unfolding forEachMissing_def by (induction items arbitrary: vs0) simp_all

text \<open>
  Claim C7. When the document does not match the weight-and-balance gate pattern, WB-001
  emits no violation, whatever the inner items. When it matches, WB-001 emits one
  violation per required item whose pattern is missing, in item order, each under rule
  id WB-001 and naming the item. In particular, a document that matches the gate, the
  Empty Weight pattern and the CG pattern but not the Useful Load pattern gets exactly
  one violation, and it names Useful Load.
\<close>

theorem wb001_spec:
  "(\<not> test wbPattern content \<longrightarrow> check wb001 rt content file = Inr []) \<and>
   (test wbPattern content \<longrightarrow>
      check wb001 rt content file =
        Inr (map wb001Violation (filter (\<lambda>item. \<not> test (snd item) content) wbRequiredData)) \<and>
      (\<forall>item. ruleId (wb001Violation item) = lit ''WB-001'' \<and>
              message (wb001Violation item) = lit ''Missing weight and balance data: '' @ fst item)) \<and>
   (test wbPattern content \<and> test emptyWeightPattern content \<and> test cgPattern content \<and>
    \<not> test usefulLoadPattern content \<longrightarrow>
      (\<exists>v. check wb001 rt content file = Inr [v] \<and> ruleId v = lit ''WB-001'' \<and>
           message v = lit ''Missing weight and balance data: Useful Load'' \<and>
           severity v = Error))"
  by (auto simp: wb001_def wb001Check_def forEachMissing_filter wbRequiredData_def
      wb001Violation_def lit_append [symmetric] split: prod.splits)

lemma sample_no_wb: "\<not> test wbPattern (lit ''Night'')"
  by code_simp

theorem wb001_spec_witness:
  "check wb001 sampleRuntime (lit ''Weight and Balance. Empty Weight: 1500 CG: 38.5'')
     (lit ''logs/a.md'') =
     Inr [\<lparr>ruleId = lit ''WB-001'', line = None,
           message = lit ''Missing weight and balance data: Useful Load'',
           severity = Error, regulation = lit ''14 CFR 91.9'',
           suggestion = Some (lit ''Include Useful Load in weight and balance documentation'')\<rparr>] \<and>
   check wb001 sampleRuntime (lit ''Night'') (lit ''old/b.md'') = Inr []"
  using wb001_spec [of "lit ''Weight and Balance. Empty Weight: 1500 CG: 38.5''" sampleRuntime
      "lit ''logs/a.md''"]
    wb001_spec [of "lit ''Night''" sampleRuntime "lit ''old/b.md''"]
  by (simp add: sample_wb_tests sample_no_wb wbRequiredData_def wb001Violation_def
      lit_append [symmetric])



section \<open>Inspection currency: results\<close>

subsection \<open>The matcher against the declarative reading\<close>

lemma length_substringAt: "i \<le> e \<Longrightarrow> e \<le> length s \<Longrightarrow> length (substringAt s i e) = e - i"
  by (simp add: substringAt_def)

lemma substringAt_split:
  "i \<le> m \<Longrightarrow> m \<le> e \<Longrightarrow> e \<le> length s \<Longrightarrow>
   substringAt s i e = substringAt s i m @ substringAt s m e"
proof -
  assume a: "i \<le> m" "m \<le> e" "e \<le> length s"
  have "take (e - i) (drop i s) = take (m - i) (drop i s) @ take (e - m) (drop (m - i) (drop i s))"
    using a take_add [of "m - i" "e - m" "drop i s"] by simp
  then show ?thesis using a by (simp add: substringAt_def)
qed

lemma takeWhile_prefix:
  "j \<le> length (takeWhile p xs) \<longleftrightarrow> j \<le> length xs \<and> list_all p (take j xs)"
proof (induction xs arbitrary: j)
  case Nil
  show ?case by simp
next
  case (Cons x xs)
  show ?case by (cases j) (simp_all add: Cons.IH)
qed

lemma rmatch_lang:
  "wordfree r \<Longrightarrow> i \<le> length s \<Longrightarrow>
   e \<in> set (rmatch r s i) \<longleftrightarrow> i \<le> e \<and> e \<le> length s \<and> substringAt s i e \<in> lang r"
proof (induction r arbitrary: i e)
  case Eps
  then show ?case by (auto simp: substringAt_def)
next
  case (Chr p)
  show ?case
  proof
    assume "e \<in> set (rmatch (Chr p) s i)"
    then have "e = Suc i" "i < length s" "p (s ! i)"
      by (auto split: if_splits)
    then show "i \<le> e \<and> e \<le> length s \<and> substringAt s i e \<in> lang (Chr p)"
      by (simp add: substringAt_def take_Suc_conv_app_nth hd_drop_conv_nth take_Suc)
  next
    assume a: "i \<le> e \<and> e \<le> length s \<and> substringAt s i e \<in> lang (Chr p)"
    then obtain c where c: "substringAt s i e = [c]" "p c" by auto
    from a c have "e - i = 1" using length_substringAt [of i e s] by simp
    with a have e: "e = Suc i" "i < length s" by auto
    with c have "s ! i = c"
      by (simp add: substringAt_def take_Suc hd_drop_conv_nth)
    with e c show "e \<in> set (rmatch (Chr p) s i)" by simp
  qed
next
  case (Seq a b)
  from Seq.prems have wa: "wordfree a" and wb: "wordfree b" by simp_all
  show ?case
  proof
    assume "e \<in> set (rmatch (Seq a b) s i)"
    then obtain m where m: "m \<in> set (rmatch a s i)" "e \<in> set (rmatch b s m)" by auto
    from m(1) have ma: "i \<le> m" "m \<le> length s" "substringAt s i m \<in> lang a"
      using Seq.IH(1) [OF wa Seq.prems(2)] by auto
    from m(2) have mb: "m \<le> e" "e \<le> length s" "substringAt s m e \<in> lang b"
      using Seq.IH(2) [OF wb ma(2)] by auto
    show "i \<le> e \<and> e \<le> length s \<and> substringAt s i e \<in> lang (Seq a b)"
      using ma mb substringAt_split [of i m e s] by auto
  next
    assume h: "i \<le> e \<and> e \<le> length s \<and> substringAt s i e \<in> lang (Seq a b)"
    then obtain u v where uv: "substringAt s i e = u @ v" "u \<in> lang a" "v \<in> lang b" by auto
    define m where "m = i + length u"
    have len: "length u + length v = e - i"
      using h uv(1) length_substringAt [of i e s] by (metis length_append)
    have bounds: "i \<le> m" "m \<le> e" "e \<le> length s"
      using h len by (auto simp: m_def)
    have sp: "substringAt s i e = substringAt s i m @ substringAt s m e"
      using bounds by (intro substringAt_split) auto
    have lu: "length (substringAt s i m) = length u"
      using bounds by (simp add: length_substringAt m_def)
    from sp uv(1) lu have "substringAt s i m = u" "substringAt s m e = v"
      by (metis append_eq_append_conv)+
    then have "m \<in> set (rmatch a s i)" "e \<in> set (rmatch b s m)"
      using Seq.IH(1) [OF wa Seq.prems(2), of m] Seq.IH(2) [OF wb, of m e] bounds uv by auto
    then show "e \<in> set (rmatch (Seq a b) s i)" by auto
  qed
next
  case (Alt a b)
  then show ?case by auto
next
  case (Opt a)
  then show ?case by (auto simp: substringAt_def)
next
  case (Rep m n p)
  define avail where "avail = length (takeWhile p (drop i s))"
  define k where "k = (case n of None \<Rightarrow> avail | Some n' \<Rightarrow> min avail n')"
  have av: "\<And>j. j \<le> avail \<longleftrightarrow> i + j \<le> length s \<and> list_all p (take j (drop i s))"
    using Rep.prems by (auto simp: avail_def takeWhile_prefix)
  have r: "rmatch (Rep m n p) s i = (if k < m then [] else map (\<lambda>j. i + j) (rev [m..<Suc k]))"
    unfolding k_def avail_def by (simp add: Let_def)
  have "e \<in> set (rmatch (Rep m n p) s i) \<longleftrightarrow> e \<in> (\<lambda>j. i + j) ` {m..k}"
    unfolding r by (auto simp del: upt_Suc simp add: atLeastLessThanSuc_atLeastAtMost)
  also have "\<dots> \<longleftrightarrow> i \<le> e \<and> m \<le> e - i \<and> e - i \<le> k"
  proof
    assume "e \<in> (\<lambda>j. i + j) ` {m..k}"
    then show "i \<le> e \<and> m \<le> e - i \<and> e - i \<le> k" by auto
  next
    assume h: "i \<le> e \<and> m \<le> e - i \<and> e - i \<le> k"
    then have "e = i + (e - i)" "e - i \<in> {m..k}" by simp_all
    then show "e \<in> (\<lambda>j. i + j) ` {m..k}" by (rule image_eqI)
  qed
  also have "\<dots> \<longleftrightarrow> i \<le> e \<and> e \<le> length s \<and> substringAt s i e \<in> lang (Rep m n p)"
    using av [of "e - i"] Rep.prems
    by (cases n) (auto simp: k_def substringAt_def)
  finally show ?case .
next
  case WordB
  then show ?case by simp
qed


lemma scan_upt:
  "scan r s [a..<b] = Some (i, e) \<longleftrightarrow>
     a \<le> i \<and> i < b \<and> (\<exists>es. rmatch r s i = e # es) \<and> (\<forall>j. a \<le> j \<and> j < i \<longrightarrow> rmatch r s j = [])"
proof (induction "b - a" arbitrary: a)
  case 0
  then show ?case by simp
next
  case (Suc n)
  then have ab: "a < b" and n: "n = b - Suc a" by simp_all
  have u: "[a..<b] = a # [Suc a..<b]"
    using ab by (rule upt_conv_Cons)
  show ?case
  proof (cases "rmatch r s a")
    case Nil
    have "scan r s [a..<b] = scan r s [Suc a..<b]"
      by (simp add: u Nil)
    also have "\<dots> = Some (i, e) \<longleftrightarrow>
        Suc a \<le> i \<and> i < b \<and> (\<exists>es. rmatch r s i = e # es) \<and>
        (\<forall>j. Suc a \<le> j \<and> j < i \<longrightarrow> rmatch r s j = [])"
      by (rule Suc.hyps(1) [OF n])
    also have "\<dots> \<longleftrightarrow> a \<le> i \<and> i < b \<and> (\<exists>es. rmatch r s i = e # es) \<and>
        (\<forall>j. a \<le> j \<and> j < i \<longrightarrow> rmatch r s j = [])"
    proof -
      have 1: "Suc a \<le> i \<longleftrightarrow> a \<le> i" if "\<exists>es. rmatch r s i = e # es"
        using that Nil by (cases "i = a") auto
      have 2: "(\<forall>j. Suc a \<le> j \<and> j < i \<longrightarrow> rmatch r s j = []) \<longleftrightarrow>
               (\<forall>j. a \<le> j \<and> j < i \<longrightarrow> rmatch r s j = [])"
      proof (intro iffI allI impI)
        fix j
        assume h: "\<forall>j. Suc a \<le> j \<and> j < i \<longrightarrow> rmatch r s j = []" and j: "a \<le> j \<and> j < i"
        show "rmatch r s j = []"
        proof (cases "j = a")
          case True
          then show ?thesis using Nil by simp
        next
          case False
          with j have "Suc a \<le> j \<and> j < i" by simp
          with h show ?thesis by blast
        qed
      next
        fix j
        assume h: "\<forall>j. a \<le> j \<and> j < i \<longrightarrow> rmatch r s j = []" and j: "Suc a \<le> j \<and> j < i"
        then have "a \<le> j \<and> j < i" by simp
        with h show "rmatch r s j = []" by blast
      qed
      show ?thesis
        unfolding 2 using 1 by blast
    qed
    finally show ?thesis .
  next
    case (Cons e' es')
    have "scan r s [a..<b] = Some (a, e')"
      by (simp add: u Cons)
    then show ?thesis
    proof -
      assume sc: "scan r s [a..<b] = Some (a, e')"
      show ?thesis
      proof
        assume "scan r s [a..<b] = Some (i, e)"
        with sc have "i = a" "e = e'" by simp_all
        then show "a \<le> i \<and> i < b \<and> (\<exists>es. rmatch r s i = e # es) \<and>
            (\<forall>j. a \<le> j \<and> j < i \<longrightarrow> rmatch r s j = [])"
          using Cons ab by auto
      next
        assume h: "a \<le> i \<and> i < b \<and> (\<exists>es. rmatch r s i = e # es) \<and>
            (\<forall>j. a \<le> j \<and> j < i \<longrightarrow> rmatch r s j = [])"
        have "i = a"
        proof (rule ccontr)
          assume "i \<noteq> a"
          with h have "a \<le> a \<and> a < i" by simp
          with h have "rmatch r s a = []" by blast
          with Cons show False by simp
        qed
        with h Cons have "e = e'" by simp
        with \<open>i = a\<close> sc show "scan r s [a..<b] = Some (i, e)" by simp
      qed
    qed
  qed
qed

lemma exec_Some:
  "exec r s = Some (i, e) \<longleftrightarrow>
     i \<le> length s \<and> (\<exists>es. rmatch r s i = e # es) \<and> (\<forall>j<i. rmatch r s j = [])"
  unfolding exec_def scan_upt by (simp add: less_Suc_eq_le)

lemma exec_None: "exec r s = None \<longleftrightarrow> (\<forall>j\<le>length s. rmatch r s j = [])"
proof
  assume n: "exec r s = None"
  show "\<forall>j\<le>length s. rmatch r s j = []"
  proof (rule ccontr)
    assume "\<not> (\<forall>j\<le>length s. rmatch r s j = [])"
    then have "\<exists>j. j \<le> length s \<and> rmatch r s j \<noteq> []" by blast
    then obtain i where i: "i \<le> length s \<and> rmatch r s i \<noteq> []"
        and least: "\<forall>j<i. \<not> (j \<le> length s \<and> rmatch r s j \<noteq> [])"
      using exists_least_iff [of "\<lambda>j. j \<le> length s \<and> rmatch r s j \<noteq> []"] by blast
    from i obtain e es where "rmatch r s i = e # es" by (cases "rmatch r s i") auto
    with i least have "exec r s = Some (i, e)"
      unfolding exec_Some by auto
    with n show False by simp
  qed
next
  assume a: "\<forall>j\<le>length s. rmatch r s j = []"
  show "exec r s = None"
  proof (cases "exec r s")
    case None
    then show ?thesis .
  next
    case (Some m)
    obtain i e where "m = (i, e)" by (cases m)
    with Some a show ?thesis by (auto simp: exec_Some)
  qed
qed

lemma dateShape_wordfree: "wordfree dateShape"
  by (simp add: dateShape_def digitsBetween_def)

lemma dateShapedAt_rmatch:
  "i \<le> length s \<Longrightarrow> dateShapedAt s i \<longleftrightarrow> rmatch dateShape s i \<noteq> []"
proof -
  assume i: "i \<le> length s"
  have "rmatch dateShape s i \<noteq> [] \<longleftrightarrow> (\<exists>e. e \<in> set (rmatch dateShape s i))"
    by (cases "rmatch dateShape s i") auto
  then show ?thesis
    unfolding dateShapedAt_def rmatch_lang [OF dateShape_wordfree i] by simp
qed

lemma match1_date_None:
  "match1 inspDatePattern s = None \<longleftrightarrow> (\<forall>i\<le>length s. \<not> dateShapedAt s i)"
proof -
  have "match1 inspDatePattern s = None \<longleftrightarrow> exec dateShape s = None"
    by (auto simp: match1_def inspDatePattern_def split: option.splits)
  then show ?thesis
    by (simp add: exec_None dateShapedAt_rmatch)
qed

lemma match1_date_Some:
  assumes "match1 inspDatePattern s = Some d"
  shows "\<exists>i e. i \<le> e \<and> e \<le> length s \<and> d = substringAt s i e \<and> d \<in> lang dateShape \<and>
           (\<forall>j<i. \<not> dateShapedAt s j)"
proof -
  from assms obtain i e where ex: "exec dateShape s = Some (i, e)" and d: "d = substringAt s i e"
    by (auto simp: match1_def inspDatePattern_def substringAt_def split: option.splits)
  from ex have i: "i \<le> length s" and m: "e \<in> set (rmatch dateShape s i)"
      and first: "\<forall>j<i. rmatch dateShape s j = []"
    by (auto simp: exec_Some)
  from m have "i \<le> e \<and> e \<le> length s \<and> substringAt s i e \<in> lang dateShape"
    using rmatch_lang [OF dateShape_wordfree i] by simp
  moreover have "\<forall>j<i. \<not> dateShapedAt s j"
    using first i by (simp add: dateShapedAt_rmatch)
  ultimately show ?thesis using d by blast
qed


lemma insp001_cases:
  "test annualPattern content \<Longrightarrow>
   check insp001 rt content file =
     Inr (case match1 inspDatePattern content of
            None \<Rightarrow> []
          | Some d \<Rightarrow>
              (case dateParse rt d of
                 None \<Rightarrow> []
               | Some t \<Rightarrow>
                   if 365 < real_of_int (dateNow rt - t) / 86400000 then [insp001Violation]
                   else []))"
  by (simp add: insp001_def insp001Check_def Let_def split: option.splits)

text \<open>
  Claim C6. For a document in which the phrase ``annual inspection'' occurs, INSP-001
  looks at one date only: the substring \<open>match1\<close> extracts is date-shaped and starts
  at the leftmost index at which any date-shaped substring starts. If that substring
  parses to a time value and more than 365 days have elapsed from it to now, the rule
  emits exactly the one INSP-001 violation (and none when 365 days or fewer have
  elapsed); if it does not parse, the rule emits nothing; if the document has no
  date-shaped substring, the rule emits nothing. The check always returns.
\<close>

theorem insp001_spec:
  assumes "test annualPattern content"
  shows "((\<forall>i\<le>length content. \<not> dateShapedAt content i) \<longrightarrow>
            check insp001 rt content file = Inr []) \<and>
         (\<forall>d. match1 inspDatePattern content = Some d \<longrightarrow>
            (\<exists>i e. i \<le> e \<and> e \<le> length content \<and> d = substringAt content i e \<and>
                   d \<in> lang dateShape \<and> (\<forall>j<i. \<not> dateShapedAt content j)) \<and>
            (dateParse rt d = None \<longrightarrow> check insp001 rt content file = Inr []) \<and>
            (\<forall>t. dateParse rt d = Some t \<longrightarrow>
               check insp001 rt content file =
                 Inr (if 365 < real_of_int (dateNow rt - t) / 86400000
                      then [insp001Violation] else []))) \<and>
         (match1 inspDatePattern content = None \<longleftrightarrow>
            (\<forall>i\<le>length content. \<not> dateShapedAt content i)) \<and>
         (\<exists>vs. check insp001 rt content file = Inr vs) \<and>
         ruleId insp001Violation = lit ''INSP-001''"
proof -
  note c = insp001_cases [OF assms, of rt "file"]
  have 1: "(\<forall>i\<le>length content. \<not> dateShapedAt content i) \<longrightarrow>
      check insp001 rt content file = Inr []"
    using c by (simp add: match1_date_None [symmetric])
  have 2: "\<forall>d. match1 inspDatePattern content = Some d \<longrightarrow>
            (\<exists>i e. i \<le> e \<and> e \<le> length content \<and> d = substringAt content i e \<and>
                   d \<in> lang dateShape \<and> (\<forall>j<i. \<not> dateShapedAt content j)) \<and>
            (dateParse rt d = None \<longrightarrow> check insp001 rt content file = Inr []) \<and>
            (\<forall>t. dateParse rt d = Some t \<longrightarrow>
               check insp001 rt content file =
                 Inr (if 365 < real_of_int (dateNow rt - t) / 86400000
                      then [insp001Violation] else []))"
  proof (intro allI impI)
    fix d
    assume d: "match1 inspDatePattern content = Some d"
    show "(\<exists>i e. i \<le> e \<and> e \<le> length content \<and> d = substringAt content i e \<and>
                   d \<in> lang dateShape \<and> (\<forall>j<i. \<not> dateShapedAt content j)) \<and>
            (dateParse rt d = None \<longrightarrow> check insp001 rt content file = Inr []) \<and>
            (\<forall>t. dateParse rt d = Some t \<longrightarrow>
               check insp001 rt content file =
                 Inr (if 365 < real_of_int (dateNow rt - t) / 86400000
                      then [insp001Violation] else []))"
      using match1_date_Some [OF d] c by (simp add: d)
  qed
  have 3: "\<exists>vs. check insp001 rt content file = Inr vs"
    by (simp add: insp001_def)
  have 4: "ruleId insp001Violation = lit ''INSP-001''"
    by (simp add: insp001Violation_def)
  show ?thesis
    using 1 2 3 4 match1_date_None by blast
qed

lemma sample_annual: "test annualPattern (lit ''Annual inspection 01/01/2026'')"
  by code_simp

lemma sample_date:
  "match1 inspDatePattern (lit ''Annual inspection 01/01/2026'') = Some (lit ''01/01/2026'')"
  by code_simp

theorem insp001_spec_witness:
  "check insp001 (sampleRuntime\<lparr>dateNow := 1798848000000\<rparr>)
     (lit ''Annual inspection 01/01/2026'') (lit ''logs/b.md'') = Inr [insp001Violation] \<and>
   check insp001 sampleRuntime
     (lit ''Annual inspection 01/01/2026'') (lit ''logs/b.md'') = Inr [] \<and>
   check insp001 (sampleRuntime\<lparr>dateParse := (\<lambda>s. None)\<rparr>)
     (lit ''Annual inspection 01/01/2026'') (lit ''logs/b.md'') = Inr []"
  using insp001_spec [OF sample_annual, of "sampleRuntime\<lparr>dateNow := 1798848000000\<rparr>"
      "lit ''logs/b.md''"]
    insp001_spec [OF sample_annual, of sampleRuntime "lit ''logs/b.md''"]
    insp001_spec [OF sample_annual, of "sampleRuntime\<lparr>dateParse := (\<lambda>s. None)\<rparr>"
      "lit ''logs/b.md''"]
  by (simp add: sample_date sampleRuntime_def)



section \<open>Reproducibility of a run: results\<close>

lemma foldl_runRule_cong:
  "(\<forall>r\<in>set rs. check r rt1 content file = check r rt2 content file) \<Longrightarrow>
   foldl (runRule rt1 content file) acc rs = foldl (runRule rt2 content file) acc rs"
proof (induction rs arbitrary: acc)
  case Nil
  show ?case by simp
next
  case (Cons r rs)
  have "runRule rt1 content file acc r = runRule rt2 content file acc r"
    using Cons.prems by (simp add: runRule_def)
  then show ?case using Cons by simp
qed

lemma checkFile_cong:
  assumes "readFileSync rt1 = readFileSync rt2"
    and "\<And>content r. readFileSync rt1 file = Inr content \<Longrightarrow> r \<in> set (rules this) \<Longrightarrow>
           check r rt1 content file = check r rt2 content file"
  shows "checkFile this rt1 file = checkFile this rt2 file"
proof (cases "readFileSync rt1 file")
  case (Inl err)
  then show ?thesis using assms(1) by (simp add: checkFile_def)
next
  case (Inr content)
  have "foldl (runRule rt1 content file) ([], []) (rules this) =
        foldl (runRule rt2 content file) ([], []) (rules this)"
    using assms(2) [OF Inr] by (intro foldl_runRule_cong) simp
  then show ?thesis using Inr assms(1) by (simp add: checkFile_def)
qed

lemma checkEach_cong:
  "(\<forall>f\<in>set files. checkFile this rt1 f = checkFile this rt2 f) \<Longrightarrow>
   checkEach this rt1 files acc = checkEach this rt2 files acc"
  by (induction files arbitrary: acc) (simp_all split: sum.splits prod.splits)

lemma findFiles_cong: "glob rt1 = glob rt2 \<Longrightarrow> findFiles rt1 patterns = findFiles rt2 patterns"
  by (simp add: findFiles_def)

lemma checkFiles_cong:
  assumes "glob rt1 = glob rt2" and "readFileSync rt1 = readFileSync rt2"
    and "\<And>file content r. readFileSync rt1 file = Inr content \<Longrightarrow> r \<in> set (rules this) \<Longrightarrow>
           check r rt1 content file = check r rt2 content file"
  shows "checkFiles this rt1 patterns = checkFiles this rt2 patterns"
proof -
  have "checkFile this rt1 f = checkFile this rt2 f" for f
    using assms(2) assms(3) by (rule checkFile_cong)
  then have "checkEach this rt1 (findFiles rt2 patterns) ([], []) =
             checkEach this rt2 (findFiles rt2 patterns) ([], [])"
    by (intro checkEach_cong) simp
  then show ?thesis
    by (simp add: checkFiles_def findFiles_cong [OF assms(1)])
qed

lemma allRules_clock:
  assumes "r \<in> set allRules"
  shows "r = insp001 \<or> check r rt1 content file = check r rt2 content file"
  using assms
  by (auto simp: allRules_def maintenanceLogRules_def pilotLogRules_def airworthinessRules_def
      weightBalanceRules_def maint001_def maint002_def maint003_def maint004_def pilot001_def
      pilot002_def pilot003_def arow001_def wb001_def)

lemma rules_subset_allRules: "set (rules (newChecker opts)) \<subseteq> set allRules"
  by (auto simp: loadRules_concat enabled_filter)

lemma insp001_category: "rule_category insp001 = Airworthiness"
  by (simp add: insp001_def)

lemma insp001_disabled: "\<not> checkAirworthiness opts \<Longrightarrow> insp001 \<notin> set (rules (newChecker opts))"
  using insp001_category by (auto simp: loadRules_concat enabled_filter categoryEnabled_def)

text \<open>
  Claim C8, as amended. Two runs over the same documents (the same glob results and file
  contents) with the same category configuration produce the same report and console
  output whenever they read the same clock and date parser. The clock enters through
  INSP-001 only: the runs agree as soon as INSP-001 reaches the same verdicts in both, and
  they agree whatever the clocks when the airworthiness category is disabled. The report
  holds no generation timestamp.
\<close>

theorem checkFiles_deterministic:
  assumes "glob rt1 = glob rt2" and "readFileSync rt1 = readFileSync rt2"
  shows "(dateNow rt1 = dateNow rt2 \<and> dateParse rt1 = dateParse rt2 \<longrightarrow>
            checkFiles (newChecker opts) rt1 patterns = checkFiles (newChecker opts) rt2 patterns) \<and>
         (\<not> checkAirworthiness opts \<longrightarrow>
            checkFiles (newChecker opts) rt1 patterns = checkFiles (newChecker opts) rt2 patterns) \<and>
         ((\<forall>content. insp001Check rt1 content = insp001Check rt2 content) \<longrightarrow>
            checkFiles (newChecker opts) rt1 patterns = checkFiles (newChecker opts) rt2 patterns)"
proof -
  have general: "checkFiles (newChecker opts) rt1 patterns = checkFiles (newChecker opts) rt2 patterns"
    if "\<And>content file. insp001 \<in> set (rules (newChecker opts)) \<Longrightarrow>
          check insp001 rt1 content file = check insp001 rt2 content file"
    using assms
  proof (rule checkFiles_cong)
    fix fname content r
    assume "r \<in> set (rules (newChecker opts))"
    then show "check r rt1 content fname = check r rt2 content fname"
      using allRules_clock [of r rt1 content fname rt2] rules_subset_allRules [of opts] that
      by auto
  qed
  have a: "checkFiles (newChecker opts) rt1 patterns = checkFiles (newChecker opts) rt2 patterns"
    if "dateNow rt1 = dateNow rt2 \<and> dateParse rt1 = dateParse rt2"
  proof -
    have "insp001Check rt1 content = insp001Check rt2 content" for content
      using that by (auto simp: insp001Check_def Let_def split: option.splits)
    then show ?thesis
      by (intro general) (simp add: insp001_def)
  qed
  have b: "checkFiles (newChecker opts) rt1 patterns = checkFiles (newChecker opts) rt2 patterns"
    if "\<not> checkAirworthiness opts"
    using insp001_disabled [OF that] by (intro general) simp
  have c: "checkFiles (newChecker opts) rt1 patterns = checkFiles (newChecker opts) rt2 patterns"
    if "\<forall>content. insp001Check rt1 content = insp001Check rt2 content"
    using that by (intro general) (simp add: insp001_def)
  show ?thesis using a b c by blast
qed


lemma sample_arow_missing:
  "length (filter (\<lambda>item. \<not> test (snd item) (lit ''Annual inspection 01/01/2026''))
     arowDocuments) = 4"
  by code_simp

lemma sample_arow:
  "length (forEachMissing snd arow001Violation (lit ''Annual inspection 01/01/2026'')
     arowDocuments []) = 4"
  by (simp add: forEachMissing_filter sample_arow_missing)

lemma sample_airworthiness_run:
  assumes "glob rt = glob sampleRuntime" and "readFileSync rt = readFileSync sampleRuntime"
  shows "\<exists>report.
           checkFiles (newChecker airworthinessOnly) rt [lit ''logs/b.md''] = Inr (report, []) \<and>
           totalViolations report =
             4 + length (insp001Check rt (lit ''Annual inspection 01/01/2026''))"
proof -
  have f: "findFiles rt [lit ''logs/b.md''] = [lit ''logs/b.md'']"
    by (simp add: findFiles_def newSet_def setAdd_def assms sampleRuntime_def)
  have r: "readFileSync rt (lit ''logs/b.md'') = Inr (lit ''Annual inspection 01/01/2026'')"
    by (simp add: assms sampleRuntime_def)
  have rs: "rules (newChecker airworthinessOnly) = [arow001, insp001]"
    by (simp add: newChecker_def loadRules_def airworthinessOnly_def airworthinessRules_def)
  show ?thesis
    by (simp add: checkFiles_def f checkFile_readable [OF r] rs List.map_filter_simps
        returned_def thrown_def arow001_def insp001_def generateReport_def Let_def sample_arow)
qed

text \<open>
  Without the condition on the clock the claim fails. The same document, an annual
  inspection dated 01/01/2026, checked with the airworthiness rules on 2026-11-02 and
  again on 2027-01-02: the first report has four violations, the second five.
\<close>

theorem checkFiles_clock_counterexample:
  "map_sum id (\<lambda>run. totalViolations (fst run))
     (checkFiles (newChecker airworthinessOnly) sampleRuntime [lit ''logs/b.md'']) = Inr 4 \<and>
   map_sum id (\<lambda>run. totalViolations (fst run))
     (checkFiles (newChecker airworthinessOnly) (sampleRuntime\<lparr>dateNow := 1798848000000\<rparr>)
        [lit ''logs/b.md'']) = Inr 5 \<and>
   checkFiles (newChecker airworthinessOnly) sampleRuntime [lit ''logs/b.md''] \<noteq>
   checkFiles (newChecker airworthinessOnly) (sampleRuntime\<lparr>dateNow := 1798848000000\<rparr>)
     [lit ''logs/b.md'']"
proof -
  have early: "insp001Check sampleRuntime (lit ''Annual inspection 01/01/2026'') = []"
    by (simp add: insp001Check_def sample_annual sample_date sampleRuntime_def)
  have late: "insp001Check (sampleRuntime\<lparr>dateNow := 1798848000000\<rparr>)
      (lit ''Annual inspection 01/01/2026'') = [insp001Violation]"
    by (simp add: insp001Check_def sample_annual sample_date sampleRuntime_def)
  obtain r1 where r1:
      "checkFiles (newChecker airworthinessOnly) sampleRuntime [lit ''logs/b.md''] = Inr (r1, [])"
      "totalViolations r1 = 4"
    using sample_airworthiness_run [of sampleRuntime] early by auto
  obtain r2 where r2:
      "checkFiles (newChecker airworthinessOnly) (sampleRuntime\<lparr>dateNow := 1798848000000\<rparr>)
         [lit ''logs/b.md''] = Inr (r2, [])"
      "totalViolations r2 = 5"
    using sample_airworthiness_run [of "sampleRuntime\<lparr>dateNow := 1798848000000\<rparr>"] late
    by auto
  from r1 r2 show ?thesis by auto
qed

theorem checkFiles_deterministic_witness:
  "checkFiles (newChecker noAirworthiness) sampleRuntime [lit ''logs/*.md'', lit ''**/b.md''] =
   checkFiles (newChecker noAirworthiness) (sampleRuntime\<lparr>dateNow := 1798848000000\<rparr>)
     [lit ''logs/*.md'', lit ''**/b.md'']"
  using checkFiles_deterministic [of sampleRuntime "sampleRuntime\<lparr>dateNow := 1798848000000\<rparr>"
      noAirworthiness "[lit ''logs/*.md'', lit ''**/b.md'']"]
  by (simp add: noAirworthiness_def)



section \<open>Markdown rendering: results\<close>











end
